theory Spec2Isabelle
  imports Complex_Main
begin

section \<open>Python library functions used by the sources\<close>

text \<open>
  Python values of the kinds a projection table holds (labels and numbers, \<open>NaN\<close> for a
  missing cell). Exceptions are values. The constructors are the exception classes the sources raise
  (or that the library calls they make raise), each with its message or key.
\<close>

datatype pyval = PStr string | PNum real | PNaN

datatype exn =
    ValueError string
  | KeyError pyval
  | IndexError
  | TypeError
  | AttributeError
  | OverflowError
  | FileNotFoundError string
  | Exception string

definition bind_exn :: "exn + 'a \<Rightarrow> ('a \<Rightarrow> exn + 'b) \<Rightarrow> exn + 'b" where
  "bind_exn m f = (case m of Inl e \<Rightarrow> Inl e | Inr x \<Rightarrow> f x)"

subsection \<open>Characters\<close>

definition NL :: char where
  "NL = CHR 0x0A"

text \<open>\<open>str.isspace\<close> on the ASCII range: tab, LF, VT, FF, CR, FS, GS, RS, US and space.\<close>

definition is_space :: "char \<Rightarrow> bool" where
  "is_space c = (c \<in> set [CHR 0x09, CHR 0x0A, CHR 0x0B, CHR 0x0C, CHR 0x0D,
                           CHR 0x1C, CHR 0x1D, CHR 0x1E, CHR 0x1F, CHR '' ''])"

definition upper_char :: "char \<Rightarrow> char" where
  "upper_char c =
     (if (97::nat) \<le> of_char c \<and> of_char c \<le> (122::nat)
      then char_of ((of_char c :: nat) - 32) else c)"

definition lower_char :: "char \<Rightarrow> char" where
  "lower_char c =
     (if (65::nat) \<le> of_char c \<and> of_char c \<le> (90::nat)
      then char_of ((of_char c :: nat) + 32) else c)"

text \<open>\<open>str.capitalize()\<close>: first character upper-cased, the rest lower-cased.\<close>

fun capitalize :: "string \<Rightarrow> string" where
  "capitalize [] = []"
| "capitalize (c # cs) = upper_char c # map lower_char cs"

subsection \<open>Regular expressions\<close>

text \<open>
  The fragment of \<open>re\<close> the sources use: literals, alternation, sequence, the optional
  group, and greedy repetition of a character class (\<open>.\<close> is any character but the
  newline, \<open>\s\<close> is white space). \<open>rests r s\<close> lists, in the order the backtracking
  matcher tries them, the remainders of \<open>s\<close> after a match of \<open>r\<close> at its start.
  \<open>re.match\<close> anchors at the start only, so \<open>re_match\<close> holds when any remainder exists.
\<close>

datatype charclass = Dot | Space

datatype regex =
    Lit string
  | Alt regex regex
  | Seq regex regex
  | Opt regex
  | Star charclass
  | Plus charclass

fun in_class :: "charclass \<Rightarrow> char \<Rightarrow> bool" where
  "in_class Dot c = (c \<noteq> NL)"
| "in_class Space c = is_space c"

fun is_prefix :: "string \<Rightarrow> string \<Rightarrow> bool" where
  "is_prefix [] s = True"
| "is_prefix (c # cs) [] = False"
| "is_prefix (c # cs) (d # ds) = (c = d \<and> is_prefix cs ds)"

fun rests :: "regex \<Rightarrow> string \<Rightarrow> string list" where
  "rests (Lit w) s = (if is_prefix w s then [drop (length w) s] else [])"
| "rests (Alt a b) s = rests a s @ rests b s"
| "rests (Seq a b) s = concat (map (rests b) (rests a s))"
| "rests (Opt a) s = rests a s @ [s]"
| "rests (Star k) s =
     map (\<lambda>i. drop i s) (rev [0 ..< Suc (length (takeWhile (in_class k) s))])"
| "rests (Plus k) s =
     map (\<lambda>i. drop i s) (rev [1 ..< Suc (length (takeWhile (in_class k) s))])"

definition re_match :: "regex \<Rightarrow> string \<Rightarrow> bool" where
  "re_match r s = (rests r s \<noteq> [])"

section \<open>The atomic input file (\<open>atomic/input_file.py\<close>)\<close>

record orbital =
  orb_n :: int
  orb_l :: int
  occupation :: "real list"

record input_file =
  exchange_correlation_type :: string
  calculation_code :: string
  description :: string
  chemical_symbol :: string
  esoteric_line :: string
  number_core_orbitals :: int
  number_valence_orbitals :: int
  valence_orbitals :: "orbital list"
  last_lines :: "string list"

text \<open>\<open>(ca|wi|hl|gl|bh|pb|rp|rv|bl)(s|r)?\<close>\<close>

definition xc_regex :: regex where
  "xc_regex =
     Seq (Alt (Lit ''ca'') (Alt (Lit ''wi'') (Alt (Lit ''hl'') (Alt (Lit ''gl'')
            (Alt (Lit ''bh'') (Alt (Lit ''pb'') (Alt (Lit ''rp'') (Alt (Lit ''rv'')
            (Lit ''bl'')))))))))
         (Opt (Alt (Lit ''s'') (Lit ''r'')))"

text \<open>\<open>(ae)\<close>\<close>

definition calc_regex :: regex where
  "calc_regex = Lit ''ae''"

text \<open>
  The three validating setters. Each returns the value it stores, or the exception.
  \<open>PeriodicTable\<close> is an enumeration that is not part of the sources at hand: its member
  names are the parameter \<open>pt\<close>, and \<open>PeriodicTable[symbol]\<close> raises \<open>KeyError\<close> for a
  string that is not a member name.
\<close>

definition check_exchange_correlation_type :: "string \<Rightarrow> exn + string" where
  "check_exchange_correlation_type xc =
     (if \<not> re_match xc_regex xc
      then Inl (ValueError ''Your value of exchange and correlation functional is not valid'')
      else Inr xc)"

definition check_calculation_code :: "string \<Rightarrow> exn + string" where
  "check_calculation_code code =
     (if \<not> re_match calc_regex code
      then Inl (ValueError ''Your value of calculation is not valid'')
      else Inr code)"

definition check_chemical_symbol :: "string list \<Rightarrow> string \<Rightarrow> exn + string" where
  "check_chemical_symbol pt symbol =
     (if symbol \<notin> set pt
      then Inl (ValueError ''The chemical symbol passed is not correct'')
      else Inr (capitalize symbol))"

definition set_exchange_correlation_type :: "string \<Rightarrow> input_file \<Rightarrow> exn + input_file" where
  "set_exchange_correlation_type xc inp =
     (case check_exchange_correlation_type xc of
        Inl e \<Rightarrow> Inl e
      | Inr v \<Rightarrow> Inr (inp\<lparr>exchange_correlation_type := v\<rparr>))"

definition set_calculation_code :: "string \<Rightarrow> input_file \<Rightarrow> exn + input_file" where
  "set_calculation_code code inp =
     (case check_calculation_code code of
        Inl e \<Rightarrow> Inl e
      | Inr v \<Rightarrow> Inr (inp\<lparr>calculation_code := v\<rparr>))"

definition set_chemical_symbol :: "string list \<Rightarrow> string \<Rightarrow> input_file \<Rightarrow> exn + input_file" where
  "set_chemical_symbol pt symbol inp =
     (case check_chemical_symbol pt symbol of
        Inl e \<Rightarrow> Inl e
      | Inr v \<Rightarrow> Inr (inp\<lparr>chemical_symbol := v\<rparr>))"

text \<open>
  \<open>InputFile.__init__\<close>: the assignments run in the order of the source, so the first
  failing validator decides the exception.
\<close>

definition init_input_file ::
  "string list \<Rightarrow> string \<Rightarrow> string \<Rightarrow> string \<Rightarrow> string \<Rightarrow> int \<Rightarrow> int \<Rightarrow> orbital list \<Rightarrow>
   string \<Rightarrow> string list \<Rightarrow> exn + input_file" where
  "init_input_file pt xc code symbol esoteric n_valence n_core orbitals descr lasts =
     (case check_exchange_correlation_type xc of
        Inl e \<Rightarrow> Inl e
      | Inr xc' \<Rightarrow>
     (case check_calculation_code code of
        Inl e \<Rightarrow> Inl e
      | Inr code' \<Rightarrow>
     (case check_chemical_symbol pt symbol of
        Inl e \<Rightarrow> Inl e
      | Inr symbol' \<Rightarrow>
          Inr \<lparr>exchange_correlation_type = xc', calculation_code = code',
               description = descr, chemical_symbol = symbol', esoteric_line = esoteric,
               number_core_orbitals = n_core, number_valence_orbitals = n_valence,
               valence_orbitals = orbitals, last_lines = lasts\<rparr>)))"

text \<open>
  \<open>numpy.isclose(a, b, rtol, atol)\<close> on finite numbers. Occupations are Python floats;
  they are taken as real numbers here, so the subtraction below is the exact one.
\<close>

definition isclose :: "real \<Rightarrow> real \<Rightarrow> real \<Rightarrow> real \<Rightarrow> bool" where
  "isclose a b rtol atol = (\<bar>a - b\<bar> \<le> atol + rtol * \<bar>b\<bar>)"

text \<open>
  \<open>InputFile.electron_occupation\<close>. \<open>occupation_scan\<close> is the \<open>for ... else\<close> loop over
  the orbitals in the order it visits them; reading \<open>value["occupation"][0]\<close> of an
  orbital with no occupation component raises \<open>IndexError\<close>. The method mutates the
  object, so it returns the outcome together with the object afterwards.
\<close>

fun occupation_scan :: "real \<Rightarrow> int \<Rightarrow> orbital list \<Rightarrow> exn + orbital list" where
  "occupation_scan fraction q [] =
     Inl (Exception
       ''Trouble with occupation. Please verify the parameters passed and the INP file.'')"
| "occupation_scan fraction q (v # vs) =
     (case occupation v of
        [] \<Rightarrow> Inl IndexError
      | x # xs \<Rightarrow>
          if \<not> isclose x 0 (1 / 10 ^ 4) (1 / 10 ^ 8) \<and> orb_l v = q
          then Inr (v\<lparr>occupation := (x - fraction) # xs\<rparr> # vs)
          else (case occupation_scan fraction q vs of
                  Inl e \<Rightarrow> Inl e
                | Inr vs' \<Rightarrow> Inr (v # vs')))"

definition electron_occupation ::
  "real \<Rightarrow> int \<Rightarrow> input_file \<Rightarrow> (exn + unit) \<times> input_file" where
  "electron_occupation electron_fraction secondary_quantum_number inp =
     (case occupation_scan electron_fraction secondary_quantum_number
             (rev (valence_orbitals inp)) of
        Inl e \<Rightarrow> (Inl e, inp)
      | Inr vs \<Rightarrow> (Inr (), inp\<lparr>valence_orbitals := rev vs\<rparr>))"

text \<open>The test of the loop body: the orbital the shift applies to.\<close>

definition eligible :: "int \<Rightarrow> orbital \<Rightarrow> bool" where
  "eligible q v =
     (\<not> isclose (hd (occupation v)) 0 (1 / 10 ^ 4) (1 / 10 ^ 8) \<and> orb_l v = q)"

text \<open>
  The objects that can exist: built by the constructor, then changed through the
  validating setters, by the occupation shift, or by assigning the plain attributes.
\<close>

inductive existing :: "string list \<Rightarrow> input_file \<Rightarrow> bool" for pt :: "string list" where
  constructed:
    "init_input_file pt xc code symbol esoteric n_valence n_core orbitals descr lasts = Inr inp
     \<Longrightarrow> existing pt inp"
| xc_assigned:
    "existing pt inp \<Longrightarrow> set_exchange_correlation_type xc inp = Inr inp' \<Longrightarrow> existing pt inp'"
| code_assigned:
    "existing pt inp \<Longrightarrow> set_calculation_code code inp = Inr inp' \<Longrightarrow> existing pt inp'"
| symbol_assigned:
    "existing pt inp \<Longrightarrow> set_chemical_symbol pt symbol inp = Inr inp' \<Longrightarrow> existing pt inp'"
| occupied:
    "existing pt inp \<Longrightarrow> electron_occupation fraction q inp = (r, inp') \<Longrightarrow> existing pt inp'"
| plain_assigned:
    "existing pt inp \<Longrightarrow>
     existing pt (inp\<lparr>description := descr, esoteric_line := esoteric,
                     number_core_orbitals := n_core, number_valence_orbitals := n_valence,
                     valence_orbitals := orbitals, last_lines := lasts\<rparr>)"

text \<open>A concrete object: gallium as \<open>minimum_setup\<close> lays it out, with two valence orbitals.\<close>

definition gallium :: input_file where
  "gallium =
     \<lparr>exchange_correlation_type = ''pb'', calculation_code = ''ae'',
      description = ''Ga'', chemical_symbol = ''Ga'',
      esoteric_line = ''       0.0       0.0       0.0       0.0       0.0       0.0'' @ [NL],
      number_core_orbitals = 5, number_valence_orbitals = 2,
      valence_orbitals =
        [\<lparr>orb_n = 4, orb_l = 0, occupation = [2, 0]\<rparr>,
         \<lparr>orb_n = 4, orb_l = 1, occupation = [1, 0]\<rparr>],
      last_lines = [''100 maxit'' @ [NL]]\<rparr>"

text \<open>
  Two objects the constructor accepts (it stores the orbital list as given): one whose
  last orbital has no occupation component, one whose first orbital has none.
\<close>

definition empty_last :: input_file where
  "empty_last =
     gallium\<lparr>valence_orbitals :=
        [\<lparr>orb_n = 4, orb_l = 1, occupation = [1, 0]\<rparr>,
         \<lparr>orb_n = 4, orb_l = 2, occupation = []\<rparr>]\<rparr>"

definition empty_first :: input_file where
  "empty_first =
     gallium\<lparr>valence_orbitals :=
        [\<lparr>orb_n = 3, orb_l = 2, occupation = []\<rparr>,
         \<lparr>orb_n = 4, orb_l = 0, occupation = [2, 0]\<rparr>,
         \<lparr>orb_n = 4, orb_l = 1, occupation = [1, 0]\<rparr>]\<rparr>"

section \<open>The radial potential file (\<open>atomic/vtotal.py\<close>)\<close>

text \<open>\<open>str.split()\<close>: the maximal runs of characters that are not white space.\<close>

fun split_from :: "string \<Rightarrow> string \<Rightarrow> string list" where
  "split_from tok [] = (if tok = [] then [] else [tok])"
| "split_from tok (c # cs) =
     (if is_space c
      then (if tok = [] then split_from [] cs else tok # split_from [] cs)
      else split_from (tok @ [c]) cs)"

definition py_split :: "string \<Rightarrow> string list" where
  "py_split s = split_from [] s"

text \<open>\<open>^.*Down\s+potential\s+follows\<close> and \<open>^.*Up\s+potential\s+follows\<close>\<close>

definition down_regex :: regex where
  "down_regex =
     Seq (Star Dot) (Seq (Lit ''Down'') (Seq (Plus Space) (Seq (Lit ''potential'')
       (Seq (Plus Space) (Lit ''follows'')))))"

definition up_regex :: regex where
  "up_regex =
     Seq (Star Dot) (Seq (Lit ''Up'') (Seq (Plus Space) (Seq (Lit ''potential'')
       (Seq (Plus Space) (Lit ''follows'')))))"

text \<open>
  \<open>np.array(tokens, dtype=np.float)\<close>: every token is converted, and a token that is no
  number raises \<open>ValueError\<close>. The conversion of one token is the parameter \<open>to_float\<close>.
\<close>

fun np_array :: "(string \<Rightarrow> 'f option) \<Rightarrow> string list \<Rightarrow> exn + 'f list" where
  "np_array to_float [] = Inr []"
| "np_array to_float (t # ts) =
     (case to_float t of
        None \<Rightarrow> Inl (ValueError ''could not convert string to float'')
      | Some x \<Rightarrow> bind_exn (np_array to_float ts) (\<lambda>xs. Inr (x # xs)))"

text \<open>
  The loop both readers share: the lines are split and collected until one matches the
  stop pattern, which returns the collected tokens. When the lines run out the loop ends
  and the function reaches its end, returning Python's \<open>None\<close>: the result \<open>None\<close> here.
\<close>

fun collect_until :: "regex \<Rightarrow> string list list \<Rightarrow> string list \<Rightarrow> string list option" where
  "collect_until stop acc [] = None"
| "collect_until stop acc (line # rest) =
     (if re_match stop line then Some (concat acc)
      else collect_until stop (acc @ [py_split line]) rest)"

text \<open>
  A file is the list of its lines, as iterating it yields them. \<open>islice(vtotal, 1, None)\<close>
  skips one line of what is left of the file.
\<close>

definition read_down_potential ::
  "(string \<Rightarrow> 'f option) \<Rightarrow> string list \<Rightarrow> exn + 'f list option" where
  "read_down_potential to_float vtotal =
     (case dropWhile (\<lambda>line. \<not> re_match down_regex line) vtotal of
        [] \<Rightarrow> Inl (ValueError ''Potential informations do not found in vtotal'')
      | marker # rest \<Rightarrow>
          (case collect_until up_regex [] (drop 1 rest) of
             None \<Rightarrow> Inr None
           | Some down_potential \<Rightarrow>
               bind_exn (np_array to_float down_potential) (\<lambda>a. Inr (Some a))))"

definition read_radius ::
  "(string \<Rightarrow> 'f option) \<Rightarrow> string list \<Rightarrow> exn + 'f list option" where
  "read_radius to_float vtotal =
     (case collect_until down_regex [] (drop 1 vtotal) of
        None \<Rightarrow> Inr None
      | Some radius \<Rightarrow> bind_exn (np_array to_float radius) (\<lambda>a. Inr (Some a)))"

record 'f vtotal =
  radius :: "'f list option"
  down_potential :: "'f list option"

definition vtotal_from_file :: "(string \<Rightarrow> 'f option) \<Rightarrow> string list \<Rightarrow> exn + 'f vtotal" where
  "vtotal_from_file to_float vtotal =
     bind_exn (read_radius to_float vtotal) (\<lambda>r.
     bind_exn (read_down_potential to_float vtotal) (\<lambda>d.
       Inr \<lparr>radius = r, down_potential = d\<rparr>))"

section \<open>The conduction correction (\<open>corrections/vasp/conduction_fractionary.py\<close>)\<close>

subsection \<open>The projection table\<close>

text \<open>
  A \<open>pandas.DataFrame\<close> with unique labels: its column labels, its row labels (the index)
  and the cell of a column and a row. \<open>df[key]\<close> selects the \<^emph>\<open>column\<close> labelled
  \<open>key\<close>, a series over the row labels, and raises \<open>KeyError\<close> when no column has that
  label; \<open>series[key]\<close> is the entry of the row labelled \<open>key\<close>, or \<open>KeyError\<close>.
\<close>

record dataframe =
  df_columns :: "pyval list"
  df_index :: "pyval list"
  df_cell :: "pyval \<Rightarrow> pyval \<Rightarrow> pyval"

record series =
  s_index :: "pyval list"
  s_value :: "pyval \<Rightarrow> pyval"

definition df_getitem :: "dataframe \<Rightarrow> pyval \<Rightarrow> exn + series" where
  "df_getitem df key =
     (if key \<in> set (df_columns df)
      then Inr \<lparr>s_index = df_index df, s_value = df_cell df key\<rparr>
      else Inl (KeyError key))"

definition series_getitem :: "series \<Rightarrow> pyval \<Rightarrow> exn + pyval" where
  "series_getitem ser key =
     (if key \<in> set (s_index ser) then Inr (s_value ser key) else Inl (KeyError key))"

text \<open>\<open>df[a][b]\<close>\<close>

definition df_at :: "dataframe \<Rightarrow> pyval \<Rightarrow> pyval \<Rightarrow> exn + pyval" where
  "df_at df a b = bind_exn (df_getitem df a) (\<lambda>ser. series_getitem ser b)"

text \<open>\<open>x >= m\<close> and \<open>x + y\<close> on these values; a comparison with \<open>NaN\<close> is false.\<close>

fun py_ge :: "pyval \<Rightarrow> real \<Rightarrow> exn + bool" where
  "py_ge (PNum x) m = Inr (x \<ge> m)"
| "py_ge PNaN m = Inr False"
| "py_ge (PStr s) m = Inl TypeError"


subsection \<open>Selecting the targets\<close>

text \<open>A \<open>dict\<close> whose values are lists, in insertion order.\<close>

fun dict_set :: "'k \<Rightarrow> 'v \<Rightarrow> ('k \<times> 'v) list \<Rightarrow> ('k \<times> 'v) list" where
  "dict_set k v [] = [(k, v)]"
| "dict_set k v ((k', v') # d) =
     (if k = k' then (k, v) # d else (k', v') # dict_set k v d)"

fun dict_append ::
  "pyval \<Rightarrow> 'v \<Rightarrow> (pyval \<times> 'v list) list \<Rightarrow> exn + (pyval \<times> 'v list) list" where
  "dict_append k v [] = Inl (KeyError k)"
| "dict_append k v ((k', vs) # d) =
     (if k = k' then Inr ((k', vs @ [v]) # d)
      else bind_exn (dict_append k v d) (\<lambda>d'. Inr ((k', vs) # d')))"

text \<open>
  \<open>_get_corrections_indexes\<close>: the loop over \<open>itertools.product(rows_name, columns_name)\<close>.
  The test reads \<open>cbm_projection[row][column]\<close>; what is appended is the value
  \<open>cbm_projection[column][row]\<close>.
\<close>

fun corrections_loop ::
  "dataframe \<Rightarrow> real \<Rightarrow> (pyval \<times> pyval) list \<Rightarrow> (pyval \<times> pyval list) list \<Rightarrow>
   exn + (pyval \<times> pyval list) list" where
  "corrections_loop df minimum_percentual [] correction_indexes = Inr correction_indexes"
| "corrections_loop df minimum_percentual ((row, column) # pairs) correction_indexes =
     bind_exn (df_at df row column) (\<lambda>v.
     bind_exn (py_ge v minimum_percentual) (\<lambda>b.
       if b
       then bind_exn (df_at df column row) (\<lambda>x.
            bind_exn (dict_append row x correction_indexes) (\<lambda>d.
              corrections_loop df minimum_percentual pairs d))
       else corrections_loop df minimum_percentual pairs correction_indexes))"

definition get_corrections_indexes ::
  "dataframe \<Rightarrow> real \<Rightarrow> exn + (pyval \<times> pyval list) list" where
  "get_corrections_indexes cbm_projection minimum_percentual =
     corrections_loop cbm_projection minimum_percentual
       (List.product (df_index cbm_projection) (df_columns cbm_projection))
       (foldl (\<lambda>d row. dict_set row [] d) [] (df_index cbm_projection))"




text \<open>The projection table \<open>{Ga: {p: 90}, N: {d: 3}}\<close>: atoms are rows, orbitals columns.\<close>

definition gan_projection :: dataframe where
  "gan_projection =
     \<lparr>df_columns = [PStr ''p'', PStr ''d''],
      df_index = [PStr ''Ga'', PStr ''N''],
      df_cell = (\<lambda>column row.
        if column = PStr ''p'' \<and> row = PStr ''Ga'' then PNum 90
        else if column = PStr ''d'' \<and> row = PStr ''N'' then PNum 3
        else PNaN)\<rparr>"

text \<open>A potential file with a radius table and no marker line.\<close>

definition vtotal_without_marker :: "string list" where
  "vtotal_without_marker =
     ['' Radial grid follows'' @ [NL],
      ''  0.1000E-01  0.2000E-01  0.3000E-01'' @ [NL],
      ''  0.4000E-01  0.5000E-01  0.6000E-01'' @ [NL]]"

subsection \<open>Working directories\<close>











section \<open>Building an input file (\<open>InputFile.minimum_setup\<close>)\<close>














section \<open>Writing an input file (\<open>InputFile.to_stringlist\<close>)\<close>





section \<open>The run of the conduction correction\<close>









text \<open>The attributes of the correction object that the run reads.\<close>

record correction =
  root_folder :: string
  atoms :: "string list"
  potential_filename :: string
  cbm_projection :: dataframe
  xc_type :: string
  max_iterations :: int
  calc_code :: string
  amplitude :: real
  minimum_percentual :: real
  conduction_potfiles_folder :: string
























section \<open>Validators\<close>

lemma is_prefix_iff: "is_prefix w s \<longleftrightarrow> take (length w) s = w"
  by (induction w s rule: is_prefix.induct) auto

lemma re_match_xc_regex:
  "re_match xc_regex s \<longleftrightarrow>
     (\<exists>w \<in> set [''ca'', ''wi'', ''hl'', ''gl'', ''bh'', ''pb'', ''rp'', ''rv'', ''bl''].
        is_prefix w s)"
  by (simp add: re_match_def xc_regex_def)

lemma re_match_calc_regex: "re_match calc_regex s \<longleftrightarrow> is_prefix ''ae'' s"
  by (simp add: re_match_def calc_regex_def)

lemma upper_idem: "upper_char (upper_char c) = upper_char c"
  by (auto simp: upper_char_def lower_char_def)

lemma lower_idem: "lower_char (lower_char c) = lower_char c"
  by (auto simp: upper_char_def lower_char_def)

lemma capitalize_idem: "capitalize (capitalize s) = capitalize s"
  by (cases s) (simp_all add: upper_idem lower_idem)

text \<open>
  C1. The exchange-correlation setter is meant to accept the nine codes with an optional
  relativistic prefix \<open>r\<close> and an optional spin suffix \<open>s\<close>, and nothing else. The pattern
  of the source puts both markers after the code and is matched at the start of the
  string only: the relativistic form \<open>rca\<close> is rejected, and a string that merely
  starts with a code is accepted and stored.
\<close>

theorem exchange_correlation_setter_at_rca:
  "set_exchange_correlation_type ''rca'' inp =
     Inl (ValueError ''Your value of exchange and correlation functional is not valid'')
   \<and> set_exchange_correlation_type ''cazz'' inp =
     Inr (inp\<lparr>exchange_correlation_type := ''cazz''\<rparr>)"
  by (simp add: set_exchange_correlation_type_def check_exchange_correlation_type_def
      re_match_xc_regex)

text \<open>
  C8. The calculation-code setter is meant to accept the literal \<open>ae\<close> only. The pattern
  is matched at the start of the string only, so \<open>aeXYZ\<close> is accepted and stored.
\<close>

theorem calculation_code_setter_at_aeXYZ:
  "set_calculation_code ''aeXYZ'' inp = Inr (inp\<lparr>calculation_code := ''aeXYZ''\<rparr>)"
  by (simp add: set_calculation_code_def check_calculation_code_def re_match_calc_regex)

lemma init_chemical_symbol:
  assumes "init_input_file pt xc code symbol esoteric n_valence n_core orbitals descr lasts
           = Inr inp"
  shows "symbol \<in> set pt \<and> chemical_symbol inp = capitalize symbol"
  using assms
  by (auto simp: init_input_file_def check_chemical_symbol_def
      split: sum.splits if_splits)

lemma set_chemical_symbol_Inr:
  assumes "set_chemical_symbol pt symbol inp = Inr inp'"
  shows "symbol \<in> set pt \<and> inp' = inp\<lparr>chemical_symbol := capitalize symbol\<rparr>"
  using assms
  by (auto simp: set_chemical_symbol_def check_chemical_symbol_def split: if_splits)

lemma electron_occupation_fields:
  assumes "electron_occupation fraction q inp = (r, inp')"
  shows "chemical_symbol inp' = chemical_symbol inp"
  using assms by (auto simp: electron_occupation_def split: sum.splits)

lemma existing_symbol_from_table:
  "existing pt inp \<Longrightarrow> \<exists>symbol. symbol \<in> set pt \<and> chemical_symbol inp = capitalize symbol"
proof (induction rule: existing.induct)
  case (constructed xc code symbol esoteric n_valence n_core orbitals descr lasts inp)
  then show ?case using init_chemical_symbol by blast
next
  case (xc_assigned inp xc inp')
  then show ?case
    by (auto simp: set_exchange_correlation_type_def split: sum.splits)
next
  case (code_assigned inp code inp')
  then show ?case
    by (auto simp: set_calculation_code_def split: sum.splits)
next
  case (symbol_assigned inp symbol inp')
  then show ?case using set_chemical_symbol_Inr by fastforce
next
  case (occupied inp fraction q r inp')
  then show ?case using electron_occupation_fields by metis
next
  case (plain_assigned inp descr esoteric n_core n_valence orbitals lasts)
  then show ?case by simp
qed

text \<open>
  C10. The chemical-symbol setter looks the raw string up in the periodic table and
  stores its capitalized form: an assignment or a construction succeeds exactly when the
  raw string is a member name, the stored symbol is then the capitalized string, and the
  symbol of every object that exists is the capitalized form of a member name, hence
  capitalized.
\<close>

theorem chemical_symbol_capitalized:
  "((\<exists>inp'. set_chemical_symbol pt symbol inp = Inr inp') \<longleftrightarrow> symbol \<in> set pt)
   \<and> (set_chemical_symbol pt symbol inp = Inr inp' \<longrightarrow>
        inp' = inp\<lparr>chemical_symbol := capitalize symbol\<rparr>)
   \<and> (init_input_file pt xc code symbol esoteric n_valence n_core orbitals descr lasts
        = Inr inp' \<longrightarrow> symbol \<in> set pt \<and> chemical_symbol inp' = capitalize symbol)
   \<and> (existing pt inp \<longrightarrow>
        capitalize (chemical_symbol inp) = chemical_symbol inp
        \<and> (\<exists>s \<in> set pt. chemical_symbol inp = capitalize s))"
proof -
  have a: "(\<exists>inp'. set_chemical_symbol pt symbol inp = Inr inp') \<longleftrightarrow> symbol \<in> set pt"
    by (simp add: set_chemical_symbol_def check_chemical_symbol_def)
  have b: "set_chemical_symbol pt symbol inp = Inr inp' \<longrightarrow>
        inp' = inp\<lparr>chemical_symbol := capitalize symbol\<rparr>"
    using set_chemical_symbol_Inr by blast
  have c: "init_input_file pt xc code symbol esoteric n_valence n_core orbitals descr lasts
        = Inr inp' \<longrightarrow> symbol \<in> set pt \<and> chemical_symbol inp' = capitalize symbol"
    using init_chemical_symbol by blast
  have d: "existing pt inp \<longrightarrow>
        capitalize (chemical_symbol inp) = chemical_symbol inp
        \<and> (\<exists>s \<in> set pt. chemical_symbol inp = capitalize s)"
    using existing_symbol_from_table capitalize_idem by metis
  from a b c d show ?thesis by blast
qed

theorem chemical_symbol_capitalized_witness:
  "set_chemical_symbol [''H'', ''Ga''] ''Ga'' gallium = Inr gallium
   \<and> (\<nexists>inp'. set_chemical_symbol [''H'', ''Ga''] ''ga'' gallium = Inr inp')
   \<and> existing [''H'', ''Ga''] gallium
   \<and> capitalize (chemical_symbol gallium) = chemical_symbol gallium"
proof -
  have i: "init_input_file [''H'', ''Ga''] ''pb'' ''ae'' ''Ga''
             (''       0.0       0.0       0.0       0.0       0.0       0.0'' @ [NL]) 2 5
             [\<lparr>orb_n = 4, orb_l = 0, occupation = [2, 0]\<rparr>,
              \<lparr>orb_n = 4, orb_l = 1, occupation = [1, 0]\<rparr>]
             ''Ga'' [''100 maxit'' @ [NL]] = Inr gallium"
    by (simp add: init_input_file_def check_exchange_correlation_type_def
        check_calculation_code_def check_chemical_symbol_def re_match_xc_regex
        re_match_calc_regex gallium_def upper_char_def lower_char_def)
  then have e: "existing [''H'', ''Ga''] gallium"
    by (rule existing.constructed)
  have m: "''Ga'' \<in> set [''H'', ''Ga'']" and n: "''ga'' \<notin> set [''H'', ''Ga'']"
    by simp_all
  from m chemical_symbol_capitalized [of "[''H'', ''Ga'']" "''Ga''" gallium]
  obtain inp' where s: "set_chemical_symbol [''H'', ''Ga''] ''Ga'' gallium = Inr inp'"
    by blast
  with chemical_symbol_capitalized [of "[''H'', ''Ga'']" "''Ga''" gallium inp']
  have "inp' = gallium\<lparr>chemical_symbol := capitalize ''Ga''\<rparr>"
    by blast
  then have "inp' = gallium"
    by (simp add: gallium_def upper_char_def lower_char_def)
  with s have 1: "set_chemical_symbol [''H'', ''Ga''] ''Ga'' gallium = Inr gallium"
    by simp
  from n chemical_symbol_capitalized [of "[''H'', ''Ga'']" "''ga''" gallium]
  have 2: "\<nexists>inp'. set_chemical_symbol [''H'', ''Ga''] ''ga'' gallium = Inr inp'"
    by blast
  from e chemical_symbol_capitalized [of "[''H'', ''Ga'']" _ gallium]
  have 3: "capitalize (chemical_symbol gallium) = chemical_symbol gallium"
    by blast
  from 1 2 e 3 show ?thesis by blast
qed

lemma occupation_scan_none:
  "(\<forall>v \<in> set xs. occupation v \<noteq> [] \<and> \<not> eligible q v) \<Longrightarrow>
   occupation_scan f q xs = Inl (Exception
       ''Trouble with occupation. Please verify the parameters passed and the INP file.'')"
  by (induction xs) (auto simp: eligible_def split: list.splits)

lemma occupation_scan_first:
  "(\<forall>v \<in> set pre. occupation v \<noteq> [] \<and> \<not> eligible q v) \<Longrightarrow>
   occupation v \<noteq> [] \<Longrightarrow> eligible q v \<Longrightarrow>
   occupation_scan f q (pre @ v # post) =
     Inr (pre @ v\<lparr>occupation := (hd (occupation v) - f) # tl (occupation v)\<rparr> # post)"
  by (induction pre) (auto simp: eligible_def split: list.splits)

lemma gallium_constructed:
  "init_input_file [''H'', ''Ga''] ''pb'' ''ae'' ''Ga''
     (''       0.0       0.0       0.0       0.0       0.0       0.0'' @ [NL]) 2 5
     [\<lparr>orb_n = 4, orb_l = 0, occupation = [2, 0]\<rparr>,
      \<lparr>orb_n = 4, orb_l = 1, occupation = [1, 0]\<rparr>]
     ''Ga'' [''100 maxit'' @ [NL]] = Inr gallium"
  by (simp add: init_input_file_def check_exchange_correlation_type_def
      check_calculation_code_def check_chemical_symbol_def re_match_xc_regex
      re_match_calc_regex gallium_def upper_char_def lower_char_def)

lemma empty_last_existing: "existing [''H'', ''Ga''] empty_last"
proof -
  have "existing [''H'', ''Ga''] gallium"
    using gallium_constructed by (rule existing.constructed)
  then have "existing [''H'', ''Ga'']
     (gallium\<lparr>description := description gallium, esoteric_line := esoteric_line gallium,
        number_core_orbitals := number_core_orbitals gallium,
        number_valence_orbitals := number_valence_orbitals gallium,
        valence_orbitals := valence_orbitals empty_last,
        last_lines := last_lines gallium\<rparr>)"
    by (rule existing.plain_assigned)
  then show ?thesis by (simp add: empty_last_def gallium_def)
qed

text \<open>
  C2, as stated, fails: the constructor stores any orbital list, and the scan reads the
  first occupation component of each orbital it visits. On an object whose last orbital
  has no occupation component the method raises \<open>IndexError\<close> at once, although the first
  orbital has the given angular momentum and a first occupation component of 1: there
  is no shift, and the exception is not the one raised for a missing eligible orbital.
\<close>

theorem electron_occupation_empty_last:
  "existing [''H'', ''Ga''] empty_last
   \<and> occupation (valence_orbitals empty_last ! 0) \<noteq> []
   \<and> eligible 1 (valence_orbitals empty_last ! 0)
   \<and> electron_occupation (1 / 2) 1 empty_last = (Inl IndexError, empty_last)"
  using empty_last_existing
  by (simp add: empty_last_def gallium_def eligible_def isclose_def electron_occupation_def)

text \<open>
  C2, amended. The occupation shift reads the orbitals from the end of the valence list.
  When some orbital has an occupation component, the given angular momentum and a first
  occupation component that is not within the tolerance of 0, and every orbital after
  it in the list has an occupation component and fails that test, then that orbital has
  \<open>fraction\<close> subtracted from its first occupation component, and every other orbital
  and every other field stay as they were. When every orbital has an occupation component
  and none passes the test, the method raises and the object is unchanged.
\<close>

theorem electron_occupation_shift:
  "(i < length (valence_orbitals inp)
      \<and> occupation (valence_orbitals inp ! i) \<noteq> []
      \<and> eligible q (valence_orbitals inp ! i)
      \<and> (\<forall>j. i < j \<and> j < length (valence_orbitals inp)
            \<longrightarrow> occupation (valence_orbitals inp ! j) \<noteq> []
              \<and> \<not> eligible q (valence_orbitals inp ! j))
      \<longrightarrow> electron_occupation f q inp =
           (Inr (), inp\<lparr>valence_orbitals := (valence_orbitals inp)
              [i := (valence_orbitals inp ! i)
                 \<lparr>occupation := (hd (occupation (valence_orbitals inp ! i)) - f)
                                 # tl (occupation (valence_orbitals inp ! i))\<rparr>]\<rparr>))
   \<and> ((\<forall>v \<in> set (valence_orbitals inp). occupation v \<noteq> [] \<and> \<not> eligible q v)
      \<longrightarrow> electron_occupation f q inp =
           (Inl (Exception
             ''Trouble with occupation. Please verify the parameters passed and the INP file.''),
            inp))"
proof (intro conjI impI)
  assume "\<forall>v \<in> set (valence_orbitals inp). occupation v \<noteq> [] \<and> \<not> eligible q v"
  then have "\<forall>v \<in> set (rev (valence_orbitals inp)). occupation v \<noteq> [] \<and> \<not> eligible q v"
    by simp
  then show "electron_occupation f q inp =
               (Inl (Exception
                 ''Trouble with occupation. Please verify the parameters passed and the INP file.''),
                inp)"
    by (simp add: electron_occupation_def occupation_scan_none)
next
  let ?vs = "valence_orbitals inp"
  let ?v = "?vs ! i"
  let ?v' = "?v\<lparr>occupation := (hd (occupation ?v) - f) # tl (occupation ?v)\<rparr>"
  assume a: "i < length ?vs \<and> occupation ?v \<noteq> [] \<and> eligible q ?v
          \<and> (\<forall>j. i < j \<and> j < length ?vs
                \<longrightarrow> occupation (?vs ! j) \<noteq> [] \<and> \<not> eligible q (?vs ! j))"
  then have i: "i < length ?vs" and nev: "occupation ?v \<noteq> []" and el: "eligible q ?v"
    and later: "\<forall>j. i < j \<and> j < length ?vs
                  \<longrightarrow> occupation (?vs ! j) \<noteq> [] \<and> \<not> eligible q (?vs ! j)"
    by blast+
  have split: "?vs = take i ?vs @ ?v # drop (Suc i) ?vs"
    using i by (simp add: id_take_nth_drop)
  have rv: "rev ?vs = rev (drop (Suc i) ?vs) @ ?v # rev (take i ?vs)"
    by (subst split) simp
  have pre: "\<forall>v \<in> set (rev (drop (Suc i) ?vs)). occupation v \<noteq> [] \<and> \<not> eligible q v"
  proof
    fix v assume "v \<in> set (rev (drop (Suc i) ?vs))"
    then have v: "v \<in> set (drop (Suc i) ?vs)" by simp
    then obtain k where "k < length (drop (Suc i) ?vs)" and "v = drop (Suc i) ?vs ! k"
      by (metis in_set_conv_nth)
    then have "v = ?vs ! (Suc i + k)" and "Suc i + k < length ?vs"
      by auto
    with later show "occupation v \<noteq> [] \<and> \<not> eligible q v" by simp
  qed
  have "occupation_scan f q (rev ?vs) =
          Inr (rev (drop (Suc i) ?vs) @ ?v' # rev (take i ?vs))"
    by (subst rv) (rule occupation_scan_first [OF pre nev el])
  moreover have "rev (rev (drop (Suc i) ?vs) @ ?v' # rev (take i ?vs)) = ?vs[i := ?v']"
    using i by (simp add: upd_conv_take_nth_drop)
  ultimately show "electron_occupation f q inp = (Inr (), inp\<lparr>valence_orbitals := ?vs[i := ?v']\<rparr>)"
    by (simp add: electron_occupation_def)
qed

theorem electron_occupation_shift_witness:
  "electron_occupation (1 / 2) 1 empty_first =
     (Inr (), empty_first\<lparr>valence_orbitals :=
        [\<lparr>orb_n = 3, orb_l = 2, occupation = []\<rparr>,
         \<lparr>orb_n = 4, orb_l = 0, occupation = [2, 0]\<rparr>,
         \<lparr>orb_n = 4, orb_l = 1, occupation = [1 / 2, 0]\<rparr>]\<rparr>)
   \<and> electron_occupation (1 / 2) 2 gallium =
     (Inl (Exception
        ''Trouble with occupation. Please verify the parameters passed and the INP file.''),
      gallium)"
proof -
  have last: "2 < length (valence_orbitals empty_first)
      \<and> occupation (valence_orbitals empty_first ! 2) \<noteq> []
      \<and> eligible 1 (valence_orbitals empty_first ! 2)
      \<and> (\<forall>j. 2 < j \<and> j < length (valence_orbitals empty_first)
            \<longrightarrow> occupation (valence_orbitals empty_first ! j) \<noteq> []
              \<and> \<not> eligible 1 (valence_orbitals empty_first ! j))"
    by (simp add: empty_first_def gallium_def eligible_def isclose_def)
  have none: "\<forall>v \<in> set (valence_orbitals gallium). occupation v \<noteq> [] \<and> \<not> eligible 2 v"
    by (simp add: gallium_def eligible_def)
  from last electron_occupation_shift [where inp = empty_first and i = 2 and q = 1
      and f = "1 / 2"]
  have "electron_occupation (1 / 2) 1 empty_first =
     (Inr (), empty_first\<lparr>valence_orbitals := (valence_orbitals empty_first)
        [2 := (valence_orbitals empty_first ! 2)
           \<lparr>occupation := (hd (occupation (valence_orbitals empty_first ! 2)) - 1 / 2)
                           # tl (occupation (valence_orbitals empty_first ! 2))\<rparr>]\<rparr>)"
    by blast
  then have 1: "electron_occupation (1 / 2) 1 empty_first =
     (Inr (), empty_first\<lparr>valence_orbitals :=
        [\<lparr>orb_n = 3, orb_l = 2, occupation = []\<rparr>,
         \<lparr>orb_n = 4, orb_l = 0, occupation = [2, 0]\<rparr>,
         \<lparr>orb_n = 4, orb_l = 1, occupation = [1 / 2, 0]\<rparr>]\<rparr>)"
    by (simp add: empty_first_def gallium_def)
  from none electron_occupation_shift [where inp = gallium and q = 2 and f = "1 / 2"]
  have 2: "electron_occupation (1 / 2) 2 gallium =
     (Inl (Exception
        ''Trouble with occupation. Please verify the parameters passed and the INP file.''),
      gallium)"
    by blast
  from 1 2 show ?thesis by blast
qed

lemma collect_until_no_match:
  "(\<forall>line \<in> set ls. \<not> re_match stop line) \<Longrightarrow> collect_until stop acc ls = None"
  by (induction ls arbitrary: acc) auto

lemma read_radius_no_marker:
  "(\<forall>line \<in> set vtotal. \<not> re_match down_regex line) \<Longrightarrow> read_radius to_float vtotal = Inr None"
  by (simp add: read_radius_def collect_until_no_match in_set_dropD)

lemma read_down_potential_no_marker:
  "(\<forall>line \<in> set vtotal. \<not> re_match down_regex line) \<Longrightarrow>
   read_down_potential to_float vtotal =
     Inl (ValueError ''Potential informations do not found in vtotal'')"
proof -
  assume a: "\<forall>line \<in> set vtotal. \<not> re_match down_regex line"
  then have d: "dropWhile (\<lambda>line. \<not> re_match down_regex line) vtotal = []"
    by simp
  show "read_down_potential to_float vtotal =
     Inl (ValueError ''Potential informations do not found in vtotal'')"
    unfolding read_down_potential_def d by simp
qed

lemma vtotal_without_marker_no_match: "\<forall>line \<in> set vtotal_without_marker. \<not> re_match down_regex line"
  by code_simp

text \<open>
  C4. A potential file in which no line matches the \<open>Down potential follows\<close> marker
  should make both readers raise. \<open>read_down_potential\<close> does (its first loop has an
  \<open>else\<close> branch that raises); \<open>read_radius\<close> has no such branch: its loop ends, the
  function reaches its end and returns \<open>None\<close>.
\<close>

theorem read_radius_without_marker:
  "read_radius to_float vtotal_without_marker = Inr None
   \<and> read_down_potential to_float vtotal_without_marker =
       Inl (ValueError ''Potential informations do not found in vtotal'')"
  using vtotal_without_marker_no_match by (simp add: read_radius_no_marker read_down_potential_no_marker)

lemma corrections_loop_KeyError:
  "row \<notin> set (df_columns df) \<Longrightarrow>
   corrections_loop df m ((row, column) # pairs) d = Inl (KeyError row)"
  by (simp add: df_at_def df_getitem_def bind_exn_def)

lemma get_corrections_indexes_KeyError:
  assumes "df_index df = row # rows" "df_columns df = column # cols" "row \<notin> set (df_columns df)"
  shows "get_corrections_indexes df m = Inl (KeyError row)"
  using assms by (simp add: get_corrections_indexes_def df_at_def df_getitem_def bind_exn_def)

text \<open>
  C3. On the projection table \<open>{Ga: {p: 90}, N: {d: 3}}\<close> the selection should be
  \<open>{Ga: [p]}\<close>. The loop tests \<open>cbm_projection[row][column]\<close>, which selects a
  \<^emph>\<open>column\<close> by the row label \<open>Ga\<close>: the first iteration raises \<open>KeyError\<close>, and no
  selection is returned.
\<close>

theorem get_corrections_indexes_gan: "get_corrections_indexes gan_projection 5 = Inl (KeyError (PStr ''Ga''))"
  by (rule get_corrections_indexes_KeyError) (simp_all add: gan_projection_def)






















































end
